theory Spec2Isabelle
  imports Complex_Main
begin

section \<open>Python values\<close>

text \<open>
  A Python \<^verbatim>\<open>str\<close> is a sequence of Unicode code points, so it is modelled as a list of
  code points (natural numbers); \<open>ascii\<close> turns an ASCII literal into such a list.

  A finite Python \<^verbatim>\<open>float\<close> is the real number it denotes, and every arithmetic operation
  on floats rounds its exact result to the nearest double, as IEEE 754 arithmetic does.
  The result of \<^verbatim>\<open>float(s)\<close> on a string can also be an infinity or a NaN, so usage
  values have the type \<open>pyfloat\<close>. The sign of a zero is not kept.
\<close>

type_synonym pystr = "nat list"

definition ascii :: "string \<Rightarrow> pystr" where
  "ascii s = map of_char s"

datatype pyfloat = Fin real | PosInf | NegInf | NaN

text \<open>
  The exceptions that the modelled code raises: \<^verbatim>\<open>ValueError\<close> from \<^verbatim>\<open>float\<close>, and
  \<^verbatim>\<open>ValidationError\<close> from the construction of a model object.
\<close>

datatype error = ValueError | ValidationError

text \<open>The comparison \<^verbatim>\<open>x < t\<close> of a float with a finite threshold.\<close>

fun pf_less :: "pyfloat \<Rightarrow> real \<Rightarrow> bool" where
  "pf_less (Fin x) t = (x < t)"
| "pf_less NegInf t = True"
| "pf_less PosInf t = False"
| "pf_less NaN t = False"

subsection \<open>Arithmetic on doubles\<close>

text \<open>The exponent of a positive number: \<open>2 ^ e \<le> x < 2 ^ (e + 1)\<close>.\<close>

function ilog2 :: "real \<Rightarrow> int" where
  "ilog2 x =
     (if 2 \<le> x then ilog2 (x / 2) + 1
      else if 0 < x \<and> x < 1 then ilog2 (x * 2) - 1
      else 0)"
  by pat_completeness auto

termination
proof (relation "measure (\<lambda>x. if 1 \<le> x then nat \<lfloor>log 2 x\<rfloor> else nat \<lceil>- log 2 x\<rceil>)")
  show "wf (measure (\<lambda>x. if 1 \<le> x then nat \<lfloor>log 2 x\<rfloor> else nat \<lceil>- log 2 x\<rceil>))"
    by simp
next
  fix x :: real
  assume x: "2 \<le> x"
  then have l: "log 2 (x / 2) = log 2 x - 1"
    by (simp add: log_divide)
  have "1 \<le> log 2 x"
    using x by (simp add: le_log_iff)
  then have "1 \<le> \<lfloor>log 2 x\<rfloor>"
    by (simp add: le_floor_iff)
  then show "(x / 2, x) \<in> measure (\<lambda>x. if 1 \<le> x then nat \<lfloor>log 2 x\<rfloor> else nat \<lceil>- log 2 x\<rceil>)"
    using x l by simp
next
  fix x :: real
  assume "\<not> 2 \<le> x" and x: "0 < x \<and> x < 1"
  then have l: "log 2 (x * 2) = log 2 x + 1"
    by (simp add: log_mult)
  have n: "log 2 x < 0"
    using x by simp
  then have c: "1 \<le> \<lceil>- log 2 x\<rceil>"
    by (simp add: le_ceiling_iff)
  show "(x * 2, x) \<in> measure (\<lambda>x. if 1 \<le> x then nat \<lfloor>log 2 x\<rfloor> else nat \<lceil>- log 2 x\<rceil>)"
  proof (cases "1 \<le> x * 2")
    case True
    have "log 2 (x * 2) < 1"
      using x True by (simp add: log_less_iff)
    moreover have "0 \<le> log 2 (x * 2)"
      using True by simp
    ultimately have "\<lfloor>log 2 (x * 2)\<rfloor> = 0"
      by (simp add: floor_eq_iff)
    with True x c show ?thesis by simp
  next
    case False
    have "\<lceil>- log 2 (x * 2)\<rceil> = \<lceil>- log 2 x\<rceil> - 1"
      using l by simp
    with False x c show ?thesis by simp
  qed
qed

declare ilog2.simps [simp del]

definition pow2 :: "int \<Rightarrow> real" where
  "pow2 e = (if 0 \<le> e then 2 ^ nat e else 1 / 2 ^ nat (- e))"

text \<open>The nearest integer; a tie goes to the even neighbour.\<close>

definition round_half_even :: "real \<Rightarrow> int" where
  "round_half_even y =
     (let f = \<lfloor>y\<rfloor> in
      if y - of_int f < 1 / 2 then f
      else if 1 / 2 < y - of_int f then f + 1
      else if even f then f else f + 1)"

text \<open>
  The double nearest to a real: 53 significant bits, a smallest exponent of -1022 (below
  it the spacing stays \<open>2 ^ -1074\<close>), ties to even. A result of magnitude \<open>2 ^ 1024\<close> or more
  stands for an overflow.
\<close>

definition nearest_double :: "real \<Rightarrow> real" where
  "nearest_double x =
     (if x = 0 then 0
      else
        (let e = max (ilog2 \<bar>x\<bar>) (- 1022);
             u = pow2 (e - 52)
         in sgn x * (of_int (round_half_even (\<bar>x\<bar> / u)) * u)))"

text \<open>
  \<^verbatim>\<open>x + y\<close>, \<^verbatim>\<open>x * y\<close> and \<^verbatim>\<open>x / y\<close> on finite floats. The costs of this development are far
  from the largest double, and an overflow of these three operations is not modelled.
\<close>

definition fadd :: "real \<Rightarrow> real \<Rightarrow> real" where
  "fadd x y = nearest_double (x + y)"

definition fmul :: "real \<Rightarrow> real \<Rightarrow> real" where
  "fmul x y = nearest_double (x * y)"

definition fdiv :: "real \<Rightarrow> real \<Rightarrow> real" where
  "fdiv x y = nearest_double (x / y)"

text \<open>
  \<^verbatim>\<open>sum(xs)\<close> over floats: it starts from the integer 0 and adds from left to right, each
  addition rounded (CPython up to version 3.11; later versions compensate the rounding).
\<close>

definition py_sum :: "real list \<Rightarrow> real" where
  "py_sum xs = foldl fadd 0 xs"

text \<open>The float that a decimal text denotes: the nearest double, or an infinity.\<close>

definition to_double :: "real \<Rightarrow> pyfloat" where
  "to_double x =
     (let y = nearest_double x in
      if 2 ^ 1024 \<le> y then PosInf
      else if y \<le> - (2 ^ 1024) then NegInf
      else Fin y)"

subsection \<open>String methods\<close>

text \<open>\<^verbatim>\<open>str.isspace\<close> on one code point: the white space that \<^verbatim>\<open>str.strip()\<close> removes.\<close>

definition is_space :: "nat \<Rightarrow> bool" where
  "is_space c \<longleftrightarrow>
     (9 \<le> c \<and> c \<le> 13) \<or> (28 \<le> c \<and> c \<le> 32) \<or> c = 133 \<or> c = 160 \<or> c = 5760 \<or>
     (8192 \<le> c \<and> c \<le> 8202) \<or> c = 8232 \<or> c = 8233 \<or> c = 8239 \<or> c = 8287 \<or> c = 12288"

definition py_strip :: "pystr \<Rightarrow> pystr" where
  "py_strip s = rev (dropWhile is_space (rev (dropWhile is_space s)))"

text \<open>\<^verbatim>\<open>s.lstrip(chars)\<close> removes the leading code points that occur in \<open>chars\<close>.\<close>

definition py_lstrip :: "pystr \<Rightarrow> pystr \<Rightarrow> pystr" where
  "py_lstrip chars s = dropWhile (\<lambda>c. c \<in> set chars) s"

text \<open>\<^verbatim>\<open>s.startswith(c)\<close> for a one-character prefix.\<close>

fun startswith :: "pystr \<Rightarrow> nat \<Rightarrow> bool" where
  "startswith [] c = False"
| "startswith (x # xs) c = (x = c)"

text \<open>
  \<^verbatim>\<open>str.lower()\<close>. ASCII capitals are mapped to small letters. The only other code points
  whose lower-case form holds an ASCII letter are U+0130 and U+212A; every remaining code
  point is left as it is, which cannot change whether an ASCII word occurs in the result.
\<close>

definition lower_cp :: "nat \<Rightarrow> pystr" where
  "lower_cp c =
     (if 65 \<le> c \<and> c \<le> 90 then [c + 32]
      else if c = 304 then [105, 775]
      else if c = 8490 then [107]
      else [c])"

definition py_lower :: "pystr \<Rightarrow> pystr" where
  "py_lower s = concat (map lower_cp s)"

text \<open>\<^verbatim>\<open>t in s\<close> for strings: \<open>t\<close> occurs in \<open>s\<close> as a contiguous run.\<close>

fun contains :: "pystr \<Rightarrow> pystr \<Rightarrow> bool" where
  "contains t [] = (t = [])"
| "contains t (c # cs) = (take (length t) (c # cs) = t \<or> contains t cs)"

text \<open>\<^verbatim>\<open>s.split(sep)\<close> for a one-character separator: never an empty list.\<close>

fun py_split :: "nat \<Rightarrow> pystr \<Rightarrow> pystr list" where
  "py_split sep [] = [[]]"
| "py_split sep (c # cs) =
     (if c = sep then [] # py_split sep cs
      else (case py_split sep cs of
              [] \<Rightarrow> [[c]]
            | l # ls \<Rightarrow> (c # l) # ls))"

text \<open>\<^verbatim>\<open>s.replace(c, '')\<close> for a one-character \<open>c\<close>: every occurrence is removed.\<close>

definition remove_char :: "nat \<Rightarrow> pystr \<Rightarrow> pystr" where
  "remove_char c s = filter (\<lambda>x. x \<noteq> c) s"

text \<open>\<^verbatim>\<open>sep.join(items)\<close>.\<close>

fun py_join :: "pystr \<Rightarrow> pystr list \<Rightarrow> pystr" where
  "py_join sep [] = []"
| "py_join sep [x] = x"
| "py_join sep (x # y # ys) = x @ sep @ py_join sep (y # ys)"

subsection \<open>The built-in \<^verbatim>\<open>float(s)\<close> on a string\<close>

text \<open>
  \<^verbatim>\<open>float\<close> removes surrounding white space and then accepts an optional sign followed by
  \<^verbatim>\<open>inf\<close>, \<^verbatim>\<open>infinity\<close> or \<^verbatim>\<open>nan\<close> in any case, or by a decimal number: digits with an optional
  point and an optional exponent, where single underscores may stand between digits.
  Anything else raises \<^verbatim>\<open>ValueError\<close>. The decimal digits of every script are read as
  digits, and the value is the double nearest to the decimal number, or an infinity when
  that is out of range.
\<close>

text \<open>
  The code points of the digit zero of every script other than ASCII (Unicode 14.0, as in
  CPython 3.11); the digits one to nine follow each of them.
\<close>

definition unicode_zeros :: "nat list" where
  "unicode_zeros =
     [1632, 1776, 1984, 2406, 2534, 2662, 2790, 2918, 3046, 3174, 3302, 3430, 3558,
      3664, 3792, 3872, 4160, 4240, 6112, 6160, 6470, 6608, 6784, 6800, 6992, 7088,
      7232, 7248, 42528, 43216, 43264, 43472, 43504, 43600, 44016, 65296, 66720,
      68912, 69734, 69872, 69942, 70096, 70384, 70736, 70864, 71248, 71360, 71472,
      71904, 72016, 72784, 73040, 73120, 92768, 92864, 93008, 120782, 120792,
      120802, 120812, 120822, 123200, 123632, 125264, 130032]"

text \<open>The value of a decimal digit, if the code point is one.\<close>

definition digit_value :: "nat \<Rightarrow> nat option" where
  "digit_value c =
     (if 48 \<le> c \<and> c \<le> 57 then Some (c - 48)
      else if c < 128 then None
      else (case List.find (\<lambda>z. z \<le> c \<and> c < z + 10) unicode_zeros of
              None \<Rightarrow> None
            | Some z \<Rightarrow> Some (c - z)))"

text \<open>The white space that \<^verbatim>\<open>float\<close> removes: as \<open>is_space\<close>, without U+001C to U+001F.\<close>

definition is_float_space :: "nat \<Rightarrow> bool" where
  "is_float_space c \<longleftrightarrow> is_space c \<and> \<not> (28 \<le> c \<and> c \<le> 31)"

text \<open>The rest of a run of digits: the digit values read, and what follows the run.\<close>

fun digits_tail :: "pystr \<Rightarrow> nat list \<times> pystr" where
  "digits_tail [] = ([], [])"
| "digits_tail [c] =
     (case digit_value c of
        Some v \<Rightarrow> ([v], [])
      | None \<Rightarrow> ([], [c]))"
| "digits_tail (c # d # cs) =
     (case digit_value c of
        Some v \<Rightarrow> (case digits_tail (d # cs) of (ds, r) \<Rightarrow> (v # ds, r))
      | None \<Rightarrow>
          if c = 95 \<and> digit_value d \<noteq> None then digits_tail (d # cs)
          else ([], c # d # cs))"

definition digitpart :: "pystr \<Rightarrow> (nat list \<times> pystr) option" where
  "digitpart s =
     (case s of
        [] \<Rightarrow> None
      | c # cs \<Rightarrow> if digit_value c \<noteq> None then Some (digits_tail s) else None)"

definition nat_of_digits :: "nat list \<Rightarrow> nat" where
  "nat_of_digits ds = foldl (\<lambda>a d. 10 * a + d) 0 ds"

text \<open>The number before the exponent: integer digits, fraction digits, and the rest.\<close>

definition number_part :: "pystr \<Rightarrow> (nat list \<times> nat list \<times> pystr) option" where
  "number_part s =
     (case digitpart s of
        Some (ip, r) \<Rightarrow>
          (case r of
             [] \<Rightarrow> Some (ip, [], r)
           | c # r' \<Rightarrow>
               if c = 46 then
                 (case digitpart r' of
                    Some (fp, r'') \<Rightarrow> Some (ip, fp, r'')
                  | None \<Rightarrow> Some (ip, [], r'))
               else Some (ip, [], r))
      | None \<Rightarrow>
          (case s of
             [] \<Rightarrow> None
           | c # r' \<Rightarrow>
               if c = 46 then
                 (case digitpart r' of
                    Some (fp, r'') \<Rightarrow> Some ([], fp, r'')
                  | None \<Rightarrow> None)
               else None))"

text \<open>The exponent: \<^verbatim>\<open>e\<close> or \<^verbatim>\<open>E\<close>, an optional sign, digits, and then the end of the string.\<close>

definition exponent_part :: "pystr \<Rightarrow> int option" where
  "exponent_part s =
     (case s of
        [] \<Rightarrow> Some 0
      | c # r \<Rightarrow>
          if c = 101 \<or> c = 69 then
            (case r of
               [] \<Rightarrow> None
             | d # r' \<Rightarrow>
                 (case digitpart (if d = 43 \<or> d = 45 then r' else r) of
                    Some (ds, []) \<Rightarrow>
                      Some (if d = 45 then - int (nat_of_digits ds) else int (nat_of_digits ds))
                  | Some (ds, x # xs) \<Rightarrow> None
                  | None \<Rightarrow> None))
          else None)"

text \<open>The exact value of the decimal number with these digits and this exponent.\<close>

definition decimal_value :: "nat list \<Rightarrow> nat list \<Rightarrow> int \<Rightarrow> real" where
  "decimal_value ip fp e =
     (let m = real (nat_of_digits (ip @ fp)); k = int (length fp) in
      if k \<le> e then m * 10 ^ nat (e - k) else m / 10 ^ nat (k - e))"

definition unsigned_float :: "pystr \<Rightarrow> pyfloat option" where
  "unsigned_float s =
     (if py_lower s = ascii ''inf'' \<or> py_lower s = ascii ''infinity'' then Some PosInf
      else if py_lower s = ascii ''nan'' then Some NaN
      else (case number_part s of
              None \<Rightarrow> None
            | Some (ip, fp, r) \<Rightarrow>
                (case exponent_part r of
                   None \<Rightarrow> None
                 | Some e \<Rightarrow> Some (to_double (decimal_value ip fp e)))))"

fun pf_neg :: "pyfloat \<Rightarrow> pyfloat" where
  "pf_neg (Fin x) = Fin (- x)"
| "pf_neg PosInf = NegInf"
| "pf_neg NegInf = PosInf"
| "pf_neg NaN = NaN"

definition py_float :: "pystr \<Rightarrow> error + pyfloat" where
  "py_float s =
     (let t = rev (dropWhile is_float_space (rev (dropWhile is_float_space s))) in
      case t of
        [] \<Rightarrow> Inl ValueError
      | c # r \<Rightarrow>
          (case (if c = 45 then map_option pf_neg (unsigned_float r)
                 else if c = 43 then unsigned_float r
                 else unsigned_float t) of
             None \<Rightarrow> Inl ValueError
           | Some v \<Rightarrow> Inr v))"

section \<open>The data model (\<^verbatim>\<open>app/models.py\<close>)\<close>

datatype ResourceStatus = ACTIVE | IDLE | STOPPED | TERMINATED

text \<open>
  A usage field reaches the analyzer as a string or as a number; the analyzer asks
  \<^verbatim>\<open>isinstance(v, str)\<close> to tell them apart. A record is any value of the record type,
  however it was built.
\<close>

datatype usage = UStr pystr | UNum pyfloat

record CostRecord =
  service :: pystr
  region :: pystr
  instance_type :: pystr
  daily_cost :: real
  usage_cpu_avg :: usage
  usage_mem_avg :: usage
  date :: "nat \<times> nat \<times> nat"
  status :: ResourceStatus

text \<open>
  \<^verbatim>\<open>CostRecordResponse\<close> extends \<^verbatim>\<open>CostRecord\<close>. Its three flags carry the suffix \<open>_flag\<close>
  here, since the analyzer's methods have the same names.
\<close>

record CostRecordResponse = CostRecord +
  usage_cpu_avg_float :: pyfloat
  usage_mem_avg_float :: pyfloat
  monthly_cost_estimate :: real
  is_underutilized_flag :: bool
  is_idle_flag :: bool
  is_high_cost_anomaly_flag :: bool

record AnalysisSummary =
  total_records :: int
  total_daily_cost :: real
  total_monthly_cost_estimate :: real
  underutilized_count :: int
  idle_count :: int
  high_cost_anomaly_count :: int
  potential_monthly_savings :: real
  underutilized_resources :: "CostRecordResponse list"
  idle_resources :: "CostRecordResponse list"
  high_cost_anomalies :: "CostRecordResponse list"

record CostSavingsReport =
  summary :: pystr
  findings :: "pystr list"
  recommendations :: "pystr list"
  estimated_savings :: real
  priority_actions :: "pystr list"
  analysis_summary :: AnalysisSummary

subsection \<open>Validation of a model object\<close>

text \<open>
  Building a \<^verbatim>\<open>CostRecordResponse\<close> validates its fields. The two usage fields are declared
  as \<^verbatim>\<open>str\<close> and carry the validator \<^verbatim>\<open>CostRecord.parse_usage_percentage\<close> in mode
  \<^verbatim>\<open>before\<close>, which the response class inherits: the validator runs first, and its result
  is then checked against the declared type.
\<close>

text \<open>The validator \<^verbatim>\<open>CostRecord.parse_usage_percentage\<close>: it returns a float.\<close>

definition CostRecord_parse_usage_percentage :: "usage \<Rightarrow> error + pyfloat" where
  "CostRecord_parse_usage_percentage v =
     (case v of
        UStr s \<Rightarrow> py_float (remove_char 37 s)
      | UNum x \<Rightarrow> Inr x)"

text \<open>A value on its way into a field: a string or a float.\<close>

datatype pyval = PyStr pystr | PyFloat pyfloat

text \<open>
  A field of type \<^verbatim>\<open>str\<close> takes a string and refuses a float: the validation does not
  turn a number into a string.
\<close>

definition str_field :: "pyval \<Rightarrow> error + pystr" where
  "str_field v =
     (case v of
        PyStr s \<Rightarrow> Inr s
      | PyFloat x \<Rightarrow> Inl ValidationError)"

text \<open>A usage field: the validator, then the type. Every failure is a \<^verbatim>\<open>ValidationError\<close>.\<close>

definition validate_usage_field :: "usage \<Rightarrow> error + pystr" where
  "validate_usage_field v =
     (case CostRecord_parse_usage_percentage v of
        Inl e \<Rightarrow> Inl ValidationError
      | Inr x \<Rightarrow> str_field (PyFloat x))"

text \<open>The field \<^verbatim>\<open>daily_cost\<close> is declared with \<^verbatim>\<open>ge=0\<close>.\<close>

definition validate_daily_cost :: "real \<Rightarrow> error + real" where
  "validate_daily_cost d = (if 0 \<le> d then Inr d else Inl ValidationError)"

text \<open>
  \<^verbatim>\<open>CostRecordResponse.from_cost_record\<close>: the two floats are computed first, then the
  object is built from the fields of the record and the computed values, which validates
  the fields.
\<close>

definition from_cost_record ::
  "CostRecord \<Rightarrow> bool \<Rightarrow> bool \<Rightarrow> bool \<Rightarrow> error + CostRecordResponse" where
  "from_cost_record record' is_u is_i is_a =
     (case (case usage_cpu_avg record' of
              UStr s \<Rightarrow> py_float (remove_char 37 s)
            | UNum v \<Rightarrow> Inr v) of
        Inl e \<Rightarrow> Inl e
      | Inr cpu_float \<Rightarrow>
          (case (case usage_mem_avg record' of
                   UStr s \<Rightarrow> py_float (remove_char 37 s)
                 | UNum v \<Rightarrow> Inr v) of
             Inl e \<Rightarrow> Inl e
           | Inr mem_float \<Rightarrow>
               (case validate_daily_cost (daily_cost record') of
                  Inl e \<Rightarrow> Inl ValidationError
                | Inr cost \<Rightarrow>
                    (case validate_usage_field (usage_cpu_avg record') of
                       Inl e \<Rightarrow> Inl ValidationError
                     | Inr cpu \<Rightarrow>
                         (case validate_usage_field (usage_mem_avg record') of
                            Inl e \<Rightarrow> Inl ValidationError
                          | Inr mem \<Rightarrow>
                              Inr \<lparr>service = service record',
                                   region = region record',
                                   instance_type = instance_type record',
                                   daily_cost = cost,
                                   usage_cpu_avg = UStr cpu,
                                   usage_mem_avg = UStr mem,
                                   date = date record',
                                   status = status record',
                                   usage_cpu_avg_float = cpu_float,
                                   usage_mem_avg_float = mem_float,
                                   monthly_cost_estimate = fmul (daily_cost record') 30,
                                   is_underutilized_flag = is_u,
                                   is_idle_flag = is_i,
                                   is_high_cost_anomaly_flag = is_a\<rparr>)))))"

section \<open>The analyzer (\<^verbatim>\<open>app/analysis.py\<close>)\<close>

definition UNDERUTILIZED_CPU_THRESHOLD :: real where "UNDERUTILIZED_CPU_THRESHOLD = 20"
definition UNDERUTILIZED_MEM_THRESHOLD :: real where "UNDERUTILIZED_MEM_THRESHOLD = 20"
definition IDLE_CPU_THRESHOLD :: real where "IDLE_CPU_THRESHOLD = 5"
definition IDLE_MEM_THRESHOLD :: real where "IDLE_MEM_THRESHOLD = 5"
definition HIGH_COST_MULTIPLIER :: real where "HIGH_COST_MULTIPLIER = 2"

text \<open>The literals \<^verbatim>\<open>0.3\<close>, \<^verbatim>\<open>0.8\<close> and \<^verbatim>\<open>0.2\<close> denote the nearest doubles.\<close>

definition SAVINGS_ESTIMATE_UNDERUTILIZED :: real where
  "SAVINGS_ESTIMATE_UNDERUTILIZED = nearest_double (3 / 10)"
definition SAVINGS_ESTIMATE_IDLE :: real where
  "SAVINGS_ESTIMATE_IDLE = nearest_double (8 / 10)"
definition SAVINGS_ESTIMATE_ANOMALY :: real where
  "SAVINGS_ESTIMATE_ANOMALY = nearest_double (2 / 10)"

definition parse_usage_percentage :: "usage \<Rightarrow> error + pyfloat" where
  "parse_usage_percentage usage_str =
     (case usage_str of
        UStr s \<Rightarrow> py_float (remove_char 37 s)
      | UNum v \<Rightarrow> Inr v)"

definition is_underutilized :: "CostRecord \<Rightarrow> error + bool" where
  "is_underutilized record' =
     (case parse_usage_percentage (usage_cpu_avg record') of
        Inl e \<Rightarrow> Inl e
      | Inr cpu \<Rightarrow>
          (case parse_usage_percentage (usage_mem_avg record') of
             Inl e \<Rightarrow> Inl e
           | Inr mem \<Rightarrow>
               Inr (status record' = ACTIVE \<and>
                    pf_less cpu UNDERUTILIZED_CPU_THRESHOLD \<and>
                    pf_less mem UNDERUTILIZED_MEM_THRESHOLD)))"

definition is_idle :: "CostRecord \<Rightarrow> error + bool" where
  "is_idle record' =
     (if status record' = IDLE then Inr True
      else
        (case parse_usage_percentage (usage_cpu_avg record') of
           Inl e \<Rightarrow> Inl e
         | Inr cpu \<Rightarrow>
             (case parse_usage_percentage (usage_mem_avg record') of
                Inl e \<Rightarrow> Inl e
              | Inr mem \<Rightarrow>
                  Inr (pf_less cpu IDLE_CPU_THRESHOLD \<and> pf_less mem IDLE_MEM_THRESHOLD))))"

text \<open>The product with \<^verbatim>\<open>2.0\<close> is exact on doubles, so it is not rounded here.\<close>

definition is_high_cost_anomaly :: "CostRecord \<Rightarrow> real \<Rightarrow> bool" where
  "is_high_cost_anomaly record' avg_cost \<longleftrightarrow>
     daily_cost record' > avg_cost * HIGH_COST_MULTIPLIER"

text \<open>
  The first loop of \<^verbatim>\<open>analyze_records\<close>: every record is classified, and its response is
  appended to each of the three lists whose flag is set. An exception ends the loop.
\<close>

fun classify_records ::
  "real \<Rightarrow> CostRecord list \<Rightarrow>
   CostRecordResponse list \<times> CostRecordResponse list \<times> CostRecordResponse list \<Rightarrow>
   error + (CostRecordResponse list \<times> CostRecordResponse list \<times> CostRecordResponse list)" where
  "classify_records avg_cost [] acc = Inr acc"
| "classify_records avg_cost (record' # rest) (underutilized, idle, anomalies) =
     (case is_underutilized record' of
        Inl e \<Rightarrow> Inl e
      | Inr is_u \<Rightarrow>
          (case is_idle record' of
             Inl e \<Rightarrow> Inl e
           | Inr is_i \<Rightarrow>
               (case from_cost_record record' is_u is_i (is_high_cost_anomaly record' avg_cost) of
                  Inl e \<Rightarrow> Inl e
                | Inr response \<Rightarrow>
                    classify_records avg_cost rest
                      (if is_u then underutilized @ [response] else underutilized,
                       if is_i then idle @ [response] else idle,
                       if is_high_cost_anomaly record' avg_cost then anomalies @ [response]
                       else anomalies))))"

text \<open>The three savings loops; each threads \<^verbatim>\<open>potential_savings\<close> through a list.\<close>

fun savings_underutilized :: "real \<Rightarrow> CostRecordResponse list \<Rightarrow> real" where
  "savings_underutilized potential_savings [] = potential_savings"
| "savings_underutilized potential_savings (resource # rest) =
     savings_underutilized
       (if \<not> is_idle_flag resource
        then fadd potential_savings
               (fmul (monthly_cost_estimate resource) SAVINGS_ESTIMATE_UNDERUTILIZED)
        else potential_savings) rest"

fun savings_idle :: "real \<Rightarrow> CostRecordResponse list \<Rightarrow> real" where
  "savings_idle potential_savings [] = potential_savings"
| "savings_idle potential_savings (resource # rest) =
     savings_idle
       (fadd potential_savings (fmul (monthly_cost_estimate resource) SAVINGS_ESTIMATE_IDLE))
       rest"

fun savings_anomalies :: "real \<Rightarrow> CostRecordResponse list \<Rightarrow> real" where
  "savings_anomalies potential_savings [] = potential_savings"
| "savings_anomalies potential_savings (resource # rest) =
     savings_anomalies
       (if \<not> is_idle_flag resource \<and> \<not> is_underutilized_flag resource
        then fadd potential_savings
               (fmul (monthly_cost_estimate resource) SAVINGS_ESTIMATE_ANOMALY)
        else potential_savings) rest"

definition analyze_records :: "CostRecord list \<Rightarrow> error + AnalysisSummary" where
  "analyze_records records =
     (if records = [] then
        Inr \<lparr>total_records = 0,
             total_daily_cost = 0,
             total_monthly_cost_estimate = 0,
             underutilized_count = 0,
             idle_count = 0,
             high_cost_anomaly_count = 0,
             potential_monthly_savings = 0,
             underutilized_resources = [],
             idle_resources = [],
             high_cost_anomalies = []\<rparr>
      else
        (let total = py_sum (map daily_cost records);
             avg_cost = fdiv total (real (length records)) in
         case classify_records avg_cost records ([], [], []) of
           Inl e \<Rightarrow> Inl e
         | Inr (underutilized, idle, anomalies) \<Rightarrow>
             Inr \<lparr>total_records = int (length records),
                  total_daily_cost = total,
                  total_monthly_cost_estimate = fmul total 30,
                  underutilized_count = int (length underutilized),
                  idle_count = int (length idle),
                  high_cost_anomaly_count = int (length anomalies),
                  potential_monthly_savings =
                    savings_anomalies
                      (savings_idle (savings_underutilized 0 underutilized) idle) anomalies,
                  underutilized_resources = underutilized,
                  idle_resources = idle,
                  high_cost_anomalies = anomalies\<rparr>))"

section \<open>The report service (\<^verbatim>\<open>app/ai_service.py\<close>)\<close>

subsection \<open>Formatting numbers\<close>

text \<open>\<^verbatim>\<open>str(n)\<close> for a natural number: its decimal digits.\<close>

fun str_nat :: "nat \<Rightarrow> pystr" where
  "str_nat n = (if n < 10 then [48 + n] else str_nat (n div 10) @ [48 + n mod 10])"

declare str_nat.simps [simp del]

text \<open>An integer inside an f-string, \<^verbatim>\<open>f"{i}"\<close>.\<close>

definition str_int :: "int \<Rightarrow> pystr" where
  "str_int i = (if i < 0 then 45 # str_nat (nat (- i)) else str_nat (nat i))"

text \<open>A comma after every third digit, counted on the reversed digits.\<close>

fun group3 :: "pystr \<Rightarrow> pystr" where
  "group3 (a # b # c # d # rest) = a # b # c # 44 # group3 (d # rest)"
| "group3 ds = ds"

text \<open>
  The format \<^verbatim>\<open>f"{x:,.2f}"\<close>: two decimals, rounded half to even on the exact value, a comma
  between groups of three integer digits, and a minus sign for a negative value.
\<close>

definition format_2f :: "real \<Rightarrow> pystr" where
  "format_2f x =
     (let y = \<bar>x\<bar> * 100;
          f = nat \<lfloor>y\<rfloor>;
          cents = (if y - real f > 1 / 2 \<or> (y - real f = 1 / 2 \<and> odd f) then f + 1 else f)
      in (if x < 0 then [45] else []) @
         rev (group3 (rev (str_nat (cents div 100)))) @
         [46, 48 + (cents mod 100) div 10, 48 + (cents mod 100) mod 10])"

subsection \<open>The deterministic report\<close>

text \<open>The sum \<^verbatim>\<open>sum(r.monthly_cost_estimate * 0.8 for r in idle_resources)\<close>.\<close>

definition idle_savings :: "CostRecordResponse list \<Rightarrow> real" where
  "idle_savings rs =
     py_sum (map (\<lambda>r. fmul (monthly_cost_estimate r) (nearest_double (8 / 10))) rs)"

definition mock_summary_text :: "AnalysisSummary \<Rightarrow> pystr" where
  "mock_summary_text s =
     ascii ''Analysis of '' @ str_int (total_records s) @
     ascii '' cloud resources reveals significant cost optimization opportunities. '' @
     ascii ''Current monthly spend is $'' @ format_2f (total_monthly_cost_estimate s) @
     ascii '', with potential savings of $'' @ format_2f (potential_monthly_savings s) @
     ascii '' per month.''"

definition mock_findings :: "AnalysisSummary \<Rightarrow> pystr list" where
  "mock_findings s =
     (if idle_count s > 0 then
        [ascii ''Found '' @ str_int (idle_count s) @
         ascii '' idle resources that can be stopped or terminated, saving approximately $'' @
         format_2f (idle_savings (idle_resources s)) @ ascii ''/month'']
      else []) @
     (if underutilized_count s > 0 then
        [ascii ''Identified '' @ str_int (underutilized_count s) @
         ascii '' underutilized resources that can be downsized to smaller instance types.'']
      else []) @
     (if high_cost_anomaly_count s > 0 then
        [ascii ''Detected '' @ str_int (high_cost_anomaly_count s) @
         ascii '' high-cost anomalies requiring optimization review.'']
      else [])"

definition mock_recommendations :: "AnalysisSummary \<Rightarrow> pystr list" where
  "mock_recommendations s =
     (if idle_resources s \<noteq> [] then
        [ascii ''Immediately stop or terminate idle resources, especially: '' @
         py_join (ascii '', '') (map service (take 3 (idle_resources s)))]
      else []) @
     (if underutilized_resources s \<noteq> [] then
        [ascii ''Downsize underutilized resources to smaller instance types. '' @
         ascii ''Consider right-sizing based on actual usage patterns.'']
      else []) @
     (if high_cost_anomalies s \<noteq> [] then
        [ascii ''Review high-cost resources for optimization opportunities. '' @
         ascii ''Consider reserved instances or spot instances where appropriate.'']
      else []) @
     [ascii ''Implement automated resource scheduling for non-production environments.''] @
     [ascii ''Set up cost alerts and budgets to prevent future cost anomalies.'']"

definition mock_priority_actions :: "AnalysisSummary \<Rightarrow> pystr list" where
  "mock_priority_actions s =
     (if idle_resources s \<noteq> [] then
        [ascii ''Terminate '' @ str_int (int (length (idle_resources s))) @
         ascii '' idle resources (highest impact: $'' @
         format_2f (idle_savings (idle_resources s)) @ ascii ''/month savings)'']
      else []) @
     (if underutilized_resources s \<noteq> [] then
        [ascii ''Right-size '' @ str_int (int (length (underutilized_resources s))) @
         ascii '' underutilized resources'']
      else []) @
     (if high_cost_anomalies s \<noteq> [] then
        [ascii ''Review and optimize '' @ str_int (int (length (high_cost_anomalies s))) @
         ascii '' high-cost resources'']
      else [])"

text \<open>\<^verbatim>\<open>AIService._generate_mock_report\<close>; the four parts above are its four local variables.\<close>

definition generate_mock_report :: "AnalysisSummary \<Rightarrow> CostSavingsReport" where
  "generate_mock_report s =
     \<lparr>summary = mock_summary_text s,
      findings = mock_findings s,
      recommendations = mock_recommendations s,
      estimated_savings = potential_monthly_savings s,
      priority_actions = mock_priority_actions s,
      analysis_summary = s\<rparr>"

subsection \<open>Parsing a narrative\<close>

datatype sect = Summary | Findings | Recommendations | Priority

text \<open>The local variables of \<^verbatim>\<open>AIService._parse_ai_response\<close> that its loop updates.\<close>

record parse_state =
  current_section :: "sect option"
  summary_var :: pystr
  findings_var :: "pystr list"
  recommendations_var :: "pystr list"
  priority_actions_var :: "pystr list"

definition initial_state :: parse_state where
  "initial_state =
     \<lparr>current_section = None, summary_var = [], findings_var = [],
      recommendations_var = [], priority_actions_var = []\<rparr>"

text \<open>\<^verbatim>\<open>word in line.lower()\<close>.\<close>

definition mentions :: "string \<Rightarrow> pystr \<Rightarrow> bool" where
  "mentions word line = contains (ascii word) (py_lower line)"

text \<open>The bullet markers \<^verbatim>\<open>-\<close>, U+2022 and \<^verbatim>\<open>*\<close>.\<close>

definition is_bullet_line :: "pystr \<Rightarrow> bool" where
  "is_bullet_line line \<longleftrightarrow> startswith line 45 \<or> startswith line 8226 \<or> startswith line 42"

text \<open>The body of the loop, for one element of \<^verbatim>\<open>lines\<close>.\<close>

definition parse_line :: "parse_state \<Rightarrow> pystr \<Rightarrow> parse_state" where
  "parse_line st raw =
     (let line = py_strip raw in
      if line = [] then st
      else if mentions ''summary'' line \<or> mentions ''executive'' line
        then st\<lparr>current_section := Some Summary\<rparr>
      else if mentions ''finding'' line
        then st\<lparr>current_section := Some Findings\<rparr>
      else if mentions ''recommendation'' line
        then st\<lparr>current_section := Some Recommendations\<rparr>
      else if mentions ''priority'' line \<or> mentions ''action'' line
        then st\<lparr>current_section := Some Priority\<rparr>
      else if is_bullet_line line then
        (let item = py_strip (py_lstrip [45, 8226, 42, 32] line) in
         if current_section st = Some Findings
           then st\<lparr>findings_var := findings_var st @ [item]\<rparr>
         else if current_section st = Some Recommendations
           then st\<lparr>recommendations_var := recommendations_var st @ [item]\<rparr>
         else if current_section st = Some Priority
           then st\<lparr>priority_actions_var := priority_actions_var st @ [item]\<rparr>
         else st)
      else if current_section st = Some Summary \<and> summary_var st = []
        then st\<lparr>summary_var := line\<rparr>
      else st)"

fun parse_lines :: "parse_state \<Rightarrow> pystr list \<Rightarrow> parse_state" where
  "parse_lines st [] = st"
| "parse_lines st (line # rest) = parse_lines (parse_line st line) rest"

text \<open>\<^verbatim>\<open>xs or [placeholder]\<close>.\<close>

definition or_default :: "pystr list \<Rightarrow> string \<Rightarrow> pystr list" where
  "or_default xs placeholder = (if xs \<noteq> [] then xs else [ascii placeholder])"

definition parse_ai_response :: "pystr \<Rightarrow> AnalysisSummary \<Rightarrow> CostSavingsReport" where
  "parse_ai_response ai_response s =
     (let st = parse_lines initial_state (py_split 10 ai_response) in
      if summary_var st = [] \<or> findings_var st = [] then generate_mock_report s
      else
        \<lparr>summary =
           (if summary_var st \<noteq> [] then summary_var st
            else ascii ''Analysis of '' @ str_int (total_records s) @ ascii '' resources.''),
         findings =
           or_default (take 10 (findings_var st))
             ''Review cost data for optimization opportunities'',
         recommendations =
           or_default (take 10 (recommendations_var st)) ''Implement cost monitoring'',
         estimated_savings = potential_monthly_savings s,
         priority_actions = or_default (take 5 (priority_actions_var st)) ''Review findings'',
         analysis_summary = s\<rparr>)"

section \<open>Examples\<close>

subsection \<open>Cohorts\<close>

text \<open>
  An active record that hardly works, a record with status idle, and a busy, costly one:
  the cohort of the specification's end-to-end scenario. The responses and the summary
  after them are the ones that the scenario expects for it.
\<close>

definition record_A :: CostRecord where
  "record_A =
     \<lparr>service = ascii ''web-a'', region = ascii ''us-east-1'', instance_type = ascii ''t3.small'',
      daily_cost = 10, usage_cpu_avg = UStr (ascii ''2%''), usage_mem_avg = UStr (ascii ''2''),
      date = (2024, 1, 15), status = ACTIVE\<rparr>"

definition record_B :: CostRecord where
  "record_B =
     \<lparr>service = ascii ''db-b'', region = ascii ''us-east-1'', instance_type = ascii ''m5.large'',
      daily_cost = 20, usage_cpu_avg = UStr (ascii ''50%''), usage_mem_avg = UNum (Fin 50),
      date = (2024, 1, 15), status = IDLE\<rparr>"

definition record_C :: CostRecord where
  "record_C =
     \<lparr>service = ascii ''ml-c'', region = ascii ''eu-west-1'', instance_type = ascii ''p3.2xlarge'',
      daily_cost = 100, usage_cpu_avg = UNum (Fin 90), usage_mem_avg = UStr (ascii ''90%''),
      date = (2024, 1, 15), status = ACTIVE\<rparr>"

definition response_A :: CostRecordResponse where
  "response_A =
     \<lparr>service = ascii ''web-a'', region = ascii ''us-east-1'', instance_type = ascii ''t3.small'',
      daily_cost = 10, usage_cpu_avg = UStr (ascii ''2%''), usage_mem_avg = UStr (ascii ''2''),
      date = (2024, 1, 15), status = ACTIVE,
      usage_cpu_avg_float = Fin 2, usage_mem_avg_float = Fin 2, monthly_cost_estimate = 300,
      is_underutilized_flag = True, is_idle_flag = True, is_high_cost_anomaly_flag = False\<rparr>"

definition response_B :: CostRecordResponse where
  "response_B =
     \<lparr>service = ascii ''db-b'', region = ascii ''us-east-1'', instance_type = ascii ''m5.large'',
      daily_cost = 20, usage_cpu_avg = UStr (ascii ''50%''), usage_mem_avg = UNum (Fin 50),
      date = (2024, 1, 15), status = IDLE,
      usage_cpu_avg_float = Fin 50, usage_mem_avg_float = Fin 50, monthly_cost_estimate = 600,
      is_underutilized_flag = False, is_idle_flag = True, is_high_cost_anomaly_flag = False\<rparr>"

definition response_C :: CostRecordResponse where
  "response_C =
     \<lparr>service = ascii ''ml-c'', region = ascii ''eu-west-1'', instance_type = ascii ''p3.2xlarge'',
      daily_cost = 100, usage_cpu_avg = UNum (Fin 90), usage_mem_avg = UStr (ascii ''90%''),
      date = (2024, 1, 15), status = ACTIVE,
      usage_cpu_avg_float = Fin 90, usage_mem_avg_float = Fin 90, monthly_cost_estimate = 3000,
      is_underutilized_flag = False, is_idle_flag = False, is_high_cost_anomaly_flag = True\<rparr>"

definition summary_ABC :: AnalysisSummary where
  "summary_ABC =
     \<lparr>total_records = 3, total_daily_cost = 130, total_monthly_cost_estimate = 3900,
      underutilized_count = 1, idle_count = 2, high_cost_anomaly_count = 1,
      potential_monthly_savings = 1320,
      underutilized_resources = [response_A],
      idle_resources = [response_A, response_B],
      high_cost_anomalies = [response_C]\<rparr>"

text \<open>Two idle records that cost 0.1 and 0.4 a day, and the responses that belong to them.\<close>

definition record_D :: CostRecord where
  "record_D =
     \<lparr>service = ascii ''cache-d'', region = ascii ''us-east-1'', instance_type = ascii ''t3.micro'',
      daily_cost = nearest_double (1 / 10), usage_cpu_avg = UStr (ascii ''1%''),
      usage_mem_avg = UStr (ascii ''1%''), date = (2024, 1, 15), status = IDLE\<rparr>"

definition record_E :: CostRecord where
  "record_E =
     \<lparr>service = ascii ''cache-e'', region = ascii ''us-east-1'', instance_type = ascii ''t3.micro'',
      daily_cost = nearest_double (4 / 10), usage_cpu_avg = UStr (ascii ''1%''),
      usage_mem_avg = UStr (ascii ''1%''), date = (2024, 1, 15), status = IDLE\<rparr>"

definition response_D :: CostRecordResponse where
  "response_D =
     \<lparr>service = ascii ''cache-d'', region = ascii ''us-east-1'', instance_type = ascii ''t3.micro'',
      daily_cost = nearest_double (1 / 10), usage_cpu_avg = UStr (ascii ''1%''),
      usage_mem_avg = UStr (ascii ''1%''), date = (2024, 1, 15), status = IDLE,
      usage_cpu_avg_float = Fin 1, usage_mem_avg_float = Fin 1,
      monthly_cost_estimate = fmul (nearest_double (1 / 10)) 30,
      is_underutilized_flag = False, is_idle_flag = True, is_high_cost_anomaly_flag = False\<rparr>"

definition response_E :: CostRecordResponse where
  "response_E =
     \<lparr>service = ascii ''cache-e'', region = ascii ''us-east-1'', instance_type = ascii ''t3.micro'',
      daily_cost = nearest_double (4 / 10), usage_cpu_avg = UStr (ascii ''1%''),
      usage_mem_avg = UStr (ascii ''1%''), date = (2024, 1, 15), status = IDLE,
      usage_cpu_avg_float = Fin 1, usage_mem_avg_float = Fin 1,
      monthly_cost_estimate = fmul (nearest_double (4 / 10)) 30,
      is_underutilized_flag = False, is_idle_flag = True, is_high_cost_anomaly_flag = False\<rparr>"

text \<open>The summary of the empty cohort.\<close>

definition empty_summary :: AnalysisSummary where
  "empty_summary =
     \<lparr>total_records = 0, total_daily_cost = 0, total_monthly_cost_estimate = 0,
      underutilized_count = 0, idle_count = 0, high_cost_anomaly_count = 0,
      potential_monthly_savings = 0, underutilized_resources = [],
      idle_resources = [], high_cost_anomalies = []\<rparr>"

subsection \<open>Narratives\<close>

text \<open>Two lines of prose: no section word and no bullet.\<close>

definition prose_narrative :: pystr where
  "prose_narrative =
     ascii ''The weather was pleasant today.'' @ [10] @ ascii ''Nothing else to report.''"

text \<open>The parser inside the findings section, with nothing captured yet.\<close>

definition findings_state :: parse_state where
  "findings_state = initial_state\<lparr>current_section := Some Findings\<rparr>"

text \<open>A narrative whose first bullet holds the word \<^verbatim>\<open>finding\<close>.\<close>

definition bulleted_narrative :: pystr where
  "bulleted_narrative =
     ascii ''Executive Summary'' @ [10] @ ascii ''Costs are high.'' @ [10] @
     ascii ''Findings'' @ [10] @ ascii ''- Key finding: idle servers'' @ [10] @
     ascii ''- Servers are oversized''"

section \<open>Evaluation of the examples\<close>

lemmas float_defs = parse_usage_percentage_def py_float_def remove_char_def ascii_def
  is_float_space_def is_space_def unsigned_float_def py_lower_def lower_cp_def number_part_def
  digitpart_def digit_value_def exponent_part_def decimal_value_def nat_of_digits_def
  to_double_def nearest_double_def ilog2.simps pow2_def round_half_even_def

lemmas double_defs = fadd_def fmul_def fdiv_def py_sum_def nearest_double_def ilog2.simps
  pow2_def round_half_even_def

lemmas threshold_defs = UNDERUTILIZED_CPU_THRESHOLD_def UNDERUTILIZED_MEM_THRESHOLD_def
  IDLE_CPU_THRESHOLD_def IDLE_MEM_THRESHOLD_def HIGH_COST_MULTIPLIER_def
  SAVINGS_ESTIMATE_UNDERUTILIZED_def SAVINGS_ESTIMATE_IDLE_def SAVINGS_ESTIMATE_ANOMALY_def

lemmas string_defs = ascii_def py_strip_def py_lstrip_def py_lower_def lower_cp_def is_space_def
  mentions_def is_bullet_line_def

lemma parse_A: "parse_usage_percentage (usage_cpu_avg record_A) = Inr (Fin 2)"
  "parse_usage_percentage (usage_mem_avg record_A) = Inr (Fin 2)"
  by (simp_all add: record_A_def float_defs)

lemma flags_A: "is_underutilized record_A = Inr True" "is_idle record_A = Inr True"
  by (simp_all add: is_underutilized_def is_idle_def parse_A threshold_defs) (simp_all add: record_A_def)

lemma parse_D: "parse_usage_percentage (usage_cpu_avg record_D) = Inr (Fin 1)"
  "parse_usage_percentage (usage_mem_avg record_D) = Inr (Fin 1)"
  by (simp_all add: record_D_def float_defs)

lemma flags_D: "is_underutilized record_D = Inr False" "is_idle record_D = Inr True"
  by (simp_all add: is_underutilized_def is_idle_def parse_D threshold_defs) (simp_all add: record_D_def)

text \<open>The parser reads the digits of other scripts, rounds, and overflows to an infinity.\<close>

lemma py_float_fullwidth_digits: "py_float [65297, 65298] = Inr (Fin 12)"
  by (simp add: float_defs unicode_zeros_def)

lemma py_float_rounds: "py_float (ascii ''19.99999999999999999'') = Inr (Fin 20)"
  by (simp add: float_defs)

lemma py_float_overflows: "py_float (ascii ''1e400'') = Inr PosInf"
  by (simp add: float_defs)

section \<open>The analysis of a cohort that is not empty\<close>

text \<open>
  A usage field never passes the validation: the validator hands a float to a field of
  type \<^verbatim>\<open>str\<close>. So \<^verbatim>\<open>from_cost_record\<close> raises for every record and all flags.
\<close>

lemma validate_usage_field_raises: "validate_usage_field v = Inl ValidationError"
  by (simp add: validate_usage_field_def str_field_def split: sum.splits)

lemma from_cost_record_raises:
  "from_cost_record r u i a = Inl ValueError \<or> from_cost_record r u i a = Inl ValidationError"
proof -
  have "e = ValueError \<or> e = ValidationError" for e :: error
    by (cases e) simp_all
  then show ?thesis
    by (auto simp: from_cost_record_def validate_usage_field_raises split: sum.splits)
qed

lemma from_cost_record_ValidationError:
  assumes "parse_usage_percentage (usage_cpu_avg r) = Inr cpu"
    and "parse_usage_percentage (usage_mem_avg r) = Inr mem"
  shows "from_cost_record r u i a = Inl ValidationError"
proof -
  have c: "(case usage_cpu_avg r of UStr s \<Rightarrow> py_float (remove_char 37 s) | UNum v \<Rightarrow> Inr v)
             = Inr cpu"
    using assms(1) by (simp add: parse_usage_percentage_def)
  have m: "(case usage_mem_avg r of UStr s \<Rightarrow> py_float (remove_char 37 s) | UNum v \<Rightarrow> Inr v)
             = Inr mem"
    using assms(2) by (simp add: parse_usage_percentage_def)
  show ?thesis
    by (simp add: from_cost_record_def c m validate_usage_field_raises split: sum.splits)
qed

text \<open>The first loop therefore ends in an exception at its first record.\<close>

lemma classify_records_raises: "isl (classify_records avg_cost (r # rs) acc)"
proof -
  obtain u i a where acc: "acc = (u, i, a)"
    by (cases acc) auto
  show ?thesis
  proof (cases "is_underutilized r")
    case (Inl e)
    then show ?thesis by (simp add: acc)
  next
    case fu: (Inr fu)
    show ?thesis
    proof (cases "is_idle r")
      case (Inl e)
      then show ?thesis by (simp add: acc fu)
    next
      case fi: (Inr fi)
      obtain e where "from_cost_record r fu fi (is_high_cost_anomaly r avg_cost) = Inl e"
        using from_cost_record_raises [of r fu fi "is_high_cost_anomaly r avg_cost"] by blast
      then show ?thesis by (simp add: acc fu fi)
    qed
  qed
qed

lemma classify_records_ValidationError:
  assumes "parse_usage_percentage (usage_cpu_avg r) = Inr cpu"
    and "parse_usage_percentage (usage_mem_avg r) = Inr mem"
  shows "classify_records avg_cost (r # rs) acc = Inl ValidationError"
proof -
  obtain u i a where acc: "acc = (u, i, a)"
    by (cases acc) auto
  obtain fu where fu: "is_underutilized r = Inr fu"
    using assms by (simp add: is_underutilized_def)
  obtain fi where fi: "is_idle r = Inr fi"
    using assms by (cases "status r = IDLE") (simp_all add: is_idle_def)
  show ?thesis
    by (simp add: acc fu fi from_cost_record_ValidationError [OF assms])
qed

text \<open>The analysis returns a summary for the empty cohort only.\<close>

lemma analyze_records_raises: "rs \<noteq> [] \<Longrightarrow> isl (analyze_records rs)"
proof (cases rs)
  case Nil
  assume "rs \<noteq> []"
  with Nil show ?thesis by simp
next
  case (Cons r rs')
  have "\<exists>e. classify_records avg_cost (r # rs') ([], [], []) = Inl e" for avg_cost
    using classify_records_raises [of avg_cost r rs' "([], [], [])"] by (simp only: isl_def)
  then have "\<exists>e. classify_records avg_cost rs ([], [], []) = Inl e" for avg_cost
    by (simp only: Cons)
  then obtain e where
    e: "classify_records (fdiv (py_sum (map daily_cost rs)) (real (length rs))) rs ([], [], [])
          = Inl e"
    by blast
  have "rs \<noteq> []"
    by (simp add: Cons)
  then show ?thesis
    by (simp add: analyze_records_def Let_def e)
qed

lemma analyze_records_ValidationError:
  assumes "parse_usage_percentage (usage_cpu_avg r) = Inr cpu"
    and "parse_usage_percentage (usage_mem_avg r) = Inr mem"
  shows "analyze_records (r # rs) = Inl ValidationError"
proof -
  have "classify_records avg_cost (r # rs) ([], [], []) = Inl ValidationError" for avg_cost
    by (rule classify_records_ValidationError [OF assms])
  then show ?thesis
    by (simp add: analyze_records_def Let_def del: classify_records.simps)
qed

text \<open>
  The arithmetic of the savings loops, taken alone: on the responses that belong to the
  two idle records the loops give 12.000000000000002, while 0.8 times the monthly total is
  12.0. The roundings of the two computations differ.
\<close>

lemma savings_loops_rounding:
  "savings_anomalies
     (savings_idle (savings_underutilized 0 []) [response_D, response_E]) [] =
     6755399441055745 / 2 ^ 49 \<and>
   fmul (nearest_double (8 / 10))
     (fmul (py_sum [daily_cost record_D, daily_cost record_E]) 30) = 12 \<and>
   (12 :: real) < 6755399441055745 / 2 ^ 49"
proof -
  have m1: "monthly_cost_estimate response_D = 3"
    by (simp add: response_D_def double_defs)
  have m2: "monthly_cost_estimate response_E = 12"
    by (simp add: response_E_def double_defs)
  have c: "SAVINGS_ESTIMATE_IDLE = 3602879701896397 / 2 ^ 52"
    by (simp add: SAVINGS_ESTIMATE_IDLE_def double_defs)
  have s1: "fmul 3 (3602879701896397 / 2 ^ 52) = 1351079888211149 / 2 ^ 49"
    by (simp add: double_defs)
  have s2: "fmul 12 (3602879701896397 / 2 ^ 52) = 1351079888211149 / 2 ^ 47"
    by (simp add: double_defs)
  have a1: "fadd 0 (1351079888211149 / 2 ^ 49) = 1351079888211149 / 2 ^ 49"
    by (simp add: double_defs)
  have a2: "fadd (1351079888211149 / 2 ^ 49) (1351079888211149 / 2 ^ 47)
              = 6755399441055745 / 2 ^ 49"
    by (simp add: double_defs)
  have "savings_anomalies
     (savings_idle (savings_underutilized 0 []) [response_D, response_E]) [] =
     fadd (fadd 0 (fmul (monthly_cost_estimate response_D) SAVINGS_ESTIMATE_IDLE))
       (fmul (monthly_cost_estimate response_E) SAVINGS_ESTIMATE_IDLE)"
    by (simp only: savings_underutilized.simps savings_idle.simps savings_anomalies.simps)
  then have loops: "savings_anomalies
     (savings_idle (savings_underutilized 0 []) [response_D, response_E]) [] =
     6755399441055745 / 2 ^ 49"
    by (simp only: m1 m2 c s1 s2 a1 a2)
  have dd: "daily_cost record_D = 3602879701896397 / 2 ^ 55"
    by (simp add: record_D_def double_defs)
  have de: "daily_cost record_E = 3602879701896397 / 2 ^ 53"
    by (simp add: record_E_def double_defs)
  have c8: "nearest_double (8 / 10) = 3602879701896397 / 2 ^ 52"
    by (simp add: double_defs)
  have t1: "fadd 0 (3602879701896397 / 2 ^ 55) = 3602879701896397 / 2 ^ 55"
    by (simp add: double_defs)
  have t2: "fadd (3602879701896397 / 2 ^ 55) (3602879701896397 / 2 ^ 53) = 1 / 2"
    by (simp add: double_defs)
  have t3: "fmul (1 / 2) 30 = 15"
    by (simp add: double_defs)
  have t4: "fmul (3602879701896397 / 2 ^ 52) 15 = 12"
    by (simp add: double_defs)
  have "py_sum [daily_cost record_D, daily_cost record_E] =
          fadd (fadd 0 (daily_cost record_D)) (daily_cost record_E)"
    by (simp only: py_sum_def foldl.simps)
  then have bound: "fmul (nearest_double (8 / 10))
     (fmul (py_sum [daily_cost record_D, daily_cost record_E]) 30) = 12"
    by (simp only: dd de c8 t1 t2 t3 t4)
  have "(12 :: real) < 6755399441055745 / 2 ^ 49"
    by simp
  with loops bound show ?thesis by (intro conjI)
qed

section \<open>Properties of the analyzer\<close>

text \<open>
  Claim C1 says that the potential savings of every cohort are the sum of one credit for
  each record, chosen by the priority idle, underutilized, anomaly. For the cohort of the
  end-to-end scenario that sum is 1320. The code does not get that far: building the
  response of the first record raises \<^verbatim>\<open>ValidationError\<close>, and the analysis returns no
  summary.
\<close>

theorem analysis_of_scenario_cohort_raises:
  "analyze_records [record_A, record_B, record_C] = Inl ValidationError"
  by (rule analyze_records_ValidationError [OF parse_A])

text \<open>
  Claim C4 says that the summary returned for every cohort has a monthly estimate of
  thirty times the total daily cost, counts equal to the lengths of its collections, and
  savings that are not negative. For a cohort of one record the analysis returns no
  summary at all: it raises \<^verbatim>\<open>ValidationError\<close>.
\<close>

theorem analysis_of_single_record_raises:
  "analyze_records [record_A] = Inl ValidationError"
  by (rule analyze_records_ValidationError [OF parse_A])

text \<open>
  Claim C9 says that for a cohort without negative daily costs the potential savings of
  the returned summary are at most 0.8 of its total monthly cost estimate. For the cohort
  of two idle records that cost 0.1 and 0.4 a day the analysis raises \<^verbatim>\<open>ValidationError\<close>
  and returns no summary.
\<close>

theorem analysis_of_two_idle_records_raises:
  "analyze_records [record_D, record_E] = Inl ValidationError"
  by (rule analyze_records_ValidationError [OF parse_D])

text \<open>
  Claim C6. The analysis of the empty cohort returns, without an error, the summary whose
  numbers are all zero and whose three collections are empty.
\<close>

theorem analyze_records_empty:
  "analyze_records [] =
     Inr \<lparr>total_records = 0, total_daily_cost = 0, total_monthly_cost_estimate = 0,
          underutilized_count = 0, idle_count = 0, high_cost_anomaly_count = 0,
          potential_monthly_savings = 0, underutilized_resources = [],
          idle_resources = [], high_cost_anomalies = []\<rparr>"
  by (simp add: analyze_records_def)

text \<open>
  Claim C8. A record is a high-cost anomaly exactly when its daily cost is strictly
  greater than twice the cohort average. With the average 10, a daily cost of 25 is an
  anomaly, and 19 and 20 are not.
\<close>

theorem high_cost_anomaly_strict:
  "(is_high_cost_anomaly r avg \<longleftrightarrow> daily_cost r > 2.0 * avg) \<and>
   is_high_cost_anomaly (r\<lparr>daily_cost := 25\<rparr>) 10 \<and>
   \<not> is_high_cost_anomaly (r\<lparr>daily_cost := 19\<rparr>) 10 \<and>
   \<not> is_high_cost_anomaly (r\<lparr>daily_cost := 20\<rparr>) 10"
  by (simp add: is_high_cost_anomaly_def HIGH_COST_MULTIPLIER_def mult.commute)

text \<open>
  Claim C7. For a record whose usage values normalize to \<open>cpu\<close> and \<open>mem\<close>, it is
  underutilized exactly when its status is active and both values are below 20, and idle
  exactly when its status is idle or both values are below 5. A record with status idle
  is idle whatever its usage values are. An active record at 10 and 10 is underutilized
  and not idle; an active record at 3 and 3 is both; a record with status idle at 50 and
  50 is idle.
\<close>

theorem classifier_predicates:
  "(parse_usage_percentage (usage_cpu_avg r) = Inr cpu \<and>
    parse_usage_percentage (usage_mem_avg r) = Inr mem \<longrightarrow>
      is_underutilized r = Inr (status r = ACTIVE \<and> pf_less cpu 20.0 \<and> pf_less mem 20.0) \<and>
      is_idle r = Inr (status r = IDLE \<or> (pf_less cpu 5.0 \<and> pf_less mem 5.0))) \<and>
   (status r = IDLE \<longrightarrow> is_idle r = Inr True) \<and>
   is_underutilized
     (r\<lparr>status := ACTIVE, usage_cpu_avg := UStr (ascii ''10%''), usage_mem_avg := UNum (Fin 10)\<rparr>)
     = Inr True \<and>
   is_idle
     (r\<lparr>status := ACTIVE, usage_cpu_avg := UStr (ascii ''10%''), usage_mem_avg := UNum (Fin 10)\<rparr>)
     = Inr False \<and>
   is_underutilized
     (r\<lparr>status := ACTIVE, usage_cpu_avg := UStr (ascii ''3%''), usage_mem_avg := UNum (Fin 3)\<rparr>)
     = Inr True \<and>
   is_idle
     (r\<lparr>status := ACTIVE, usage_cpu_avg := UStr (ascii ''3%''), usage_mem_avg := UNum (Fin 3)\<rparr>)
     = Inr True \<and>
   is_idle
     (r\<lparr>status := IDLE, usage_cpu_avg := UStr (ascii ''50%''), usage_mem_avg := UNum (Fin 50)\<rparr>)
     = Inr True"
proof -
  have p10: "parse_usage_percentage (UStr (ascii ''10%'')) = Inr (Fin 10)"
    by (simp add: float_defs)
  have p3: "parse_usage_percentage (UStr (ascii ''3%'')) = Inr (Fin 3)"
    by (simp add: float_defs)
  have pn: "parse_usage_percentage (UNum v) = Inr v" for v
    by (simp add: parse_usage_percentage_def)
  show ?thesis
    by (simp add: is_underutilized_def is_idle_def p10 p3 pn threshold_defs)
qed

theorem classifier_predicates_witness:
  "parse_usage_percentage (usage_cpu_avg record_A) = Inr (Fin 2) \<and>
   parse_usage_percentage (usage_mem_avg record_A) = Inr (Fin 2) \<and>
   is_underutilized record_A = Inr True \<and> is_idle record_A = Inr True \<and>
   status record_B = IDLE \<and> is_idle record_B = Inr True"
  using classifier_predicates [of record_A "Fin 2" "Fin 2"]
    classifier_predicates [of record_B "Fin 50" "Fin 50"] parse_A
  by (simp add: record_A_def record_B_def)

text \<open>
  Claim C5, as the code has it. \<^verbatim>\<open>parse_usage_percentage\<close> gives 42 for \<^verbatim>\<open>"42%"\<close>, \<^verbatim>\<open>"42"\<close>
  and the number 42, without clamping (150 and -5 pass through, and a number is returned
  as it is). A trailing percent sign makes no difference. Every percent sign of a string
  is removed, wherever it stands, and the call fails with \<^verbatim>\<open>ValueError\<close> exactly when
  \<^verbatim>\<open>float\<close> rejects what is left: \<^verbatim>\<open>"abc"\<close> fails, and \<^verbatim>\<open>"12%34"\<close> is read as 1234.
\<close>

theorem parse_usage_percentage_removes_every_percent:
  "parse_usage_percentage (UStr (ascii ''42%'')) = Inr (Fin 42) \<and>
   parse_usage_percentage (UStr (ascii ''42'')) = Inr (Fin 42) \<and>
   parse_usage_percentage (UNum (Fin 42)) = Inr (Fin 42) \<and>
   parse_usage_percentage (UStr (ascii ''abc'')) = Inl ValueError \<and>
   parse_usage_percentage (UStr (ascii ''150%'')) = Inr (Fin 150) \<and>
   parse_usage_percentage (UStr (ascii ''-5'')) = Inr (Fin (- 5)) \<and>
   parse_usage_percentage (UNum v) = Inr v \<and>
   parse_usage_percentage (UStr (s @ ascii ''%'')) = parse_usage_percentage (UStr s) \<and>
   parse_usage_percentage (UStr s) = py_float (filter (\<lambda>c. c \<noteq> of_char CHR ''%'') s) \<and>
   (parse_usage_percentage (UStr s) = Inl ValueError \<longleftrightarrow>
      py_float (filter (\<lambda>c. c \<noteq> of_char CHR ''%'') s) = Inl ValueError) \<and>
   parse_usage_percentage (UStr (ascii ''12%34'')) = Inr (Fin 1234)"
proof -
  have "parse_usage_percentage (UStr (ascii ''42%'')) = Inr (Fin 42)"
    by (simp add: float_defs)
  moreover have "parse_usage_percentage (UStr (ascii ''42'')) = Inr (Fin 42)"
    by (simp add: float_defs)
  moreover have "parse_usage_percentage (UStr (ascii ''abc'')) = Inl ValueError"
    by (simp add: float_defs)
  moreover have "parse_usage_percentage (UStr (ascii ''150%'')) = Inr (Fin 150)"
    by (simp add: float_defs)
  moreover have "parse_usage_percentage (UStr (ascii ''-5'')) = Inr (Fin (- 5))"
    by (simp add: float_defs)
  moreover have "parse_usage_percentage (UStr (ascii ''12%34'')) = Inr (Fin 1234)"
    by (simp add: float_defs)
  moreover have "parse_usage_percentage (UStr (s @ ascii ''%'')) = parse_usage_percentage (UStr s)"
    by (simp add: parse_usage_percentage_def remove_char_def ascii_def)
  moreover have "parse_usage_percentage (UStr s) = py_float (filter (\<lambda>c. c \<noteq> of_char CHR ''%'') s)"
    by (simp add: parse_usage_percentage_def remove_char_def)
  ultimately show ?thesis
    by (simp add: parse_usage_percentage_def)
qed

text \<open>
  Claim C5, as stated, says that \<^verbatim>\<open>"12%34"\<close> fails because only a percent sign at the end
  is removed. The code removes the sign in the middle as well and returns a number.
\<close>

theorem percent_in_the_middle_is_parsed:
  "parse_usage_percentage (UStr (ascii ''12%34'')) \<noteq> Inl ValueError"
  by (simp add: float_defs)

section \<open>Properties of the report service\<close>

lemma parse_line_findings:
  "\<not> is_bullet_line (py_strip raw) \<Longrightarrow> findings_var (parse_line st raw) = findings_var st"
  by (simp add: parse_line_def Let_def)

lemma parse_lines_findings:
  "\<forall>l\<in>set ls. \<not> is_bullet_line (py_strip l) \<Longrightarrow>
   findings_var (parse_lines st ls) = findings_var st"
  by (induction ls arbitrary: st) (simp_all add: parse_line_findings)

text \<open>
  Claim C2. When the scan of a narrative captures no summary line or no findings, the
  parser returns the deterministic report of the same summary. A narrative without any
  bullet line is such a narrative.
\<close>

theorem unusable_narrative_falls_back:
  "(summary_var (parse_lines initial_state (py_split 10 narrative)) = [] \<or>
    findings_var (parse_lines initial_state (py_split 10 narrative)) = [] \<longrightarrow>
      parse_ai_response narrative s = generate_mock_report s) \<and>
   ((\<forall>l\<in>set (py_split 10 narrative). \<not> is_bullet_line (py_strip l)) \<longrightarrow>
      parse_ai_response narrative s = generate_mock_report s)"
proof -
  have "findings_var (parse_lines initial_state (py_split 10 narrative)) = []"
    if "\<forall>l\<in>set (py_split 10 narrative). \<not> is_bullet_line (py_strip l)"
    using parse_lines_findings [OF that, of initial_state] by (simp add: initial_state_def)
  then show ?thesis
    by (auto simp: parse_ai_response_def Let_def)
qed

lemma split_prose:
  "py_split 10 prose_narrative =
     [ascii ''The weather was pleasant today.'', ascii ''Nothing else to report.'']"
  by (simp add: prose_narrative_def ascii_def)

lemma prose_no_bullets:
  "\<not> is_bullet_line (py_strip (ascii ''The weather was pleasant today.''))"
  "\<not> is_bullet_line (py_strip (ascii ''Nothing else to report.''))"
  by (simp_all add: string_defs)

theorem unusable_narrative_falls_back_witness:
  "py_split 10 prose_narrative =
     [ascii ''The weather was pleasant today.'', ascii ''Nothing else to report.''] \<and>
   \<not> is_bullet_line (py_strip (ascii ''The weather was pleasant today.'')) \<and>
   \<not> is_bullet_line (py_strip (ascii ''Nothing else to report.'')) \<and>
   findings_var (parse_lines initial_state (py_split 10 prose_narrative)) = [] \<and>
   parse_ai_response prose_narrative summary_ABC = generate_mock_report summary_ABC"
  using unusable_narrative_falls_back [of prose_narrative summary_ABC] split_prose prose_no_bullets
    parse_lines_findings [of "py_split 10 prose_narrative" initial_state]
  by (simp add: initial_state_def)

text \<open>
  Claim C3, as the code has it. For a summary whose three counts are zero, the
  deterministic report has a non-empty list of recommendations that ends with the two
  standing ones, and no findings. Its priority actions have one entry for each non-empty
  collection and no placeholder: when the three collections are empty, the list is empty
  and the recommendations are the two standing ones alone.
\<close>

theorem mock_report_without_waste:
  assumes "idle_count s = 0" and "underutilized_count s = 0" and "high_cost_anomaly_count s = 0"
  shows "recommendations (generate_mock_report s) \<noteq> [] \<and>
         drop (length (recommendations (generate_mock_report s)) - 2)
           (recommendations (generate_mock_report s)) =
           [ascii ''Implement automated resource scheduling for non-production environments.'',
            ascii ''Set up cost alerts and budgets to prevent future cost anomalies.''] \<and>
         findings (generate_mock_report s) = [] \<and>
         length (priority_actions (generate_mock_report s)) =
           (if idle_resources s \<noteq> [] then 1 else 0) +
           (if underutilized_resources s \<noteq> [] then 1 else 0) +
           (if high_cost_anomalies s \<noteq> [] then 1 else 0) \<and>
         (idle_resources s = [] \<and> underutilized_resources s = [] \<and> high_cost_anomalies s = []
            \<longrightarrow> priority_actions (generate_mock_report s) = [] \<and>
                recommendations (generate_mock_report s) =
                  [ascii ''Implement automated resource scheduling for non-production environments.'',
                   ascii ''Set up cost alerts and budgets to prevent future cost anomalies.''])"
  using assms
  by (simp add: generate_mock_report_def mock_recommendations_def mock_findings_def
      mock_priority_actions_def)

theorem mock_report_without_waste_witness:
  "idle_count empty_summary = 0 \<and> underutilized_count empty_summary = 0 \<and>
   high_cost_anomaly_count empty_summary = 0 \<and>
   idle_resources empty_summary = [] \<and> underutilized_resources empty_summary = [] \<and>
   high_cost_anomalies empty_summary = [] \<and>
   recommendations (generate_mock_report empty_summary) \<noteq> [] \<and>
   findings (generate_mock_report empty_summary) = [] \<and>
   priority_actions (generate_mock_report empty_summary) = []"
  using mock_report_without_waste [of empty_summary]
  by (simp add: empty_summary_def)

text \<open>
  Claim C3, as stated, promises a placeholder among the priority actions, so that no list
  of the report is empty. For the summary of the empty cohort the deterministic report
  has no priority action and no finding.
\<close>

theorem mock_report_empty_priority_actions:
  "analyze_records [] = Inr empty_summary \<and>
   idle_count empty_summary = 0 \<and> underutilized_count empty_summary = 0 \<and>
   high_cost_anomaly_count empty_summary = 0 \<and>
   priority_actions (generate_mock_report empty_summary) = [] \<and>
   findings (generate_mock_report empty_summary) = []"
  by (simp add: analyze_records_def empty_summary_def generate_mock_report_def
      mock_findings_def mock_priority_actions_def)

lemma mentions_nonempty:
  "mentions ''summary'' [] = False" "mentions ''executive'' [] = False"
  "mentions ''finding'' [] = False" "mentions ''recommendation'' [] = False"
  "mentions ''priority'' [] = False" "mentions ''action'' [] = False"
  by (simp_all add: mentions_def py_lower_def ascii_def)

lemma parse_line_section_token:
  assumes "mentions ''summary'' (py_strip raw) \<or> mentions ''executive'' (py_strip raw) \<or>
           mentions ''finding'' (py_strip raw) \<or> mentions ''recommendation'' (py_strip raw) \<or>
           mentions ''priority'' (py_strip raw) \<or> mentions ''action'' (py_strip raw)"
  shows "\<exists>sec. parse_line st raw = st\<lparr>current_section := Some sec\<rparr>"
proof -
  have ne: "py_strip raw \<noteq> []"
  proof
    assume "py_strip raw = []"
    with assms show False by (simp add: mentions_nonempty)
  qed
  show ?thesis
  proof (cases "mentions ''summary'' (py_strip raw) \<or> mentions ''executive'' (py_strip raw)")
    case True
    then have "parse_line st raw = st\<lparr>current_section := Some Summary\<rparr>"
      using ne by (simp add: parse_line_def Let_def)
    then show ?thesis by (rule exI)
  next
    case s: False
    show ?thesis
    proof (cases "mentions ''finding'' (py_strip raw)")
      case True
      then have "parse_line st raw = st\<lparr>current_section := Some Findings\<rparr>"
        using ne s by (simp add: parse_line_def Let_def)
      then show ?thesis by (rule exI)
    next
      case f: False
      show ?thesis
      proof (cases "mentions ''recommendation'' (py_strip raw)")
        case True
        then have "parse_line st raw = st\<lparr>current_section := Some Recommendations\<rparr>"
          using ne s f by (simp add: parse_line_def Let_def)
        then show ?thesis by (rule exI)
      next
        case r: False
        with assms s f
        have "mentions ''priority'' (py_strip raw) \<or> mentions ''action'' (py_strip raw)"
          by simp
        then have "parse_line st raw = st\<lparr>current_section := Some Priority\<rparr>"
          using ne s f r by (simp add: parse_line_def Let_def)
        then show ?thesis by (rule exI)
      qed
    qed
  qed
qed

text \<open>
  Claim C10. A line that holds one of the six section words only sets the active section:
  the captured summary and the three lists stay as they were, also when the line starts
  with a bullet marker. The bullet \<^verbatim>\<open>- Key finding: idle servers\<close> inside the findings
  section is not captured, and in a narrative with that bullet and a second one only the
  second one reaches the findings. The words are found in any case, and behind any of the
  three bullet markers.
\<close>

theorem section_token_wins_over_bullet:
  "(word \<in> {''summary'', ''executive'', ''finding'', ''recommendation'', ''priority'', ''action''} \<and>
    mentions word (py_strip raw) \<longrightarrow>
      (\<exists>sec. parse_line st raw = st\<lparr>current_section := Some sec\<rparr>) \<and>
      summary_var (parse_line st raw) = summary_var st \<and>
      findings_var (parse_line st raw) = findings_var st \<and>
      recommendations_var (parse_line st raw) = recommendations_var st \<and>
      priority_actions_var (parse_line st raw) = priority_actions_var st) \<and>
   is_bullet_line (ascii ''- Key finding: idle servers'') \<and>
   findings_var (parse_line findings_state (ascii ''- Key finding: idle servers'')) = [] \<and>
   parse_line findings_state (ascii ''* PRIORITY: stop idle servers'') =
     findings_state\<lparr>current_section := Some Priority\<rparr> \<and>
   parse_line findings_state (8226 # ascii '' Recommendation: resize'') =
     findings_state\<lparr>current_section := Some Recommendations\<rparr> \<and>
   findings_var (parse_lines initial_state (py_split 10 bulleted_narrative)) =
     [ascii ''Servers are oversized'']"
proof -
  have g: "word \<in> {''summary'', ''executive'', ''finding'', ''recommendation'', ''priority'', ''action''} \<and>
    mentions word (py_strip raw) \<longrightarrow>
      (\<exists>sec. parse_line st raw = st\<lparr>current_section := Some sec\<rparr>) \<and>
      summary_var (parse_line st raw) = summary_var st \<and>
      findings_var (parse_line st raw) = findings_var st \<and>
      recommendations_var (parse_line st raw) = recommendations_var st \<and>
      priority_actions_var (parse_line st raw) = priority_actions_var st"
  proof (intro impI, elim conjE)
    assume w: "word \<in> {''summary'', ''executive'', ''finding'', ''recommendation'', ''priority'', ''action''}"
      and m: "mentions word (py_strip raw)"
    from w have "word = ''summary'' \<or> word = ''executive'' \<or> word = ''finding'' \<or>
        word = ''recommendation'' \<or> word = ''priority'' \<or> word = ''action''"
      by (simp only: insert_iff empty_iff simp_thms)
    with m have "mentions ''summary'' (py_strip raw) \<or> mentions ''executive'' (py_strip raw) \<or>
        mentions ''finding'' (py_strip raw) \<or> mentions ''recommendation'' (py_strip raw) \<or>
        mentions ''priority'' (py_strip raw) \<or> mentions ''action'' (py_strip raw)"
      by (elim disjE) (simp_all only: simp_thms)
    from parse_line_section_token [OF this, of st] obtain sec where
      eq: "parse_line st raw = st\<lparr>current_section := Some sec\<rparr>" ..
    show "(\<exists>sec. parse_line st raw = st\<lparr>current_section := Some sec\<rparr>) \<and>
      summary_var (parse_line st raw) = summary_var st \<and>
      findings_var (parse_line st raw) = findings_var st \<and>
      recommendations_var (parse_line st raw) = recommendations_var st \<and>
      priority_actions_var (parse_line st raw) = priority_actions_var st"
      by (intro conjI exI [of _ sec]) (simp_all add: eq)
  qed
  have b: "is_bullet_line (ascii ''- Key finding: idle servers'')"
    by (simp add: string_defs)
  have f: "findings_var (parse_line findings_state (ascii ''- Key finding: idle servers'')) = []"
    by (simp add: parse_line_def findings_state_def initial_state_def string_defs)
  have u: "parse_line findings_state (ascii ''* PRIORITY: stop idle servers'') =
     findings_state\<lparr>current_section := Some Priority\<rparr>"
    by (simp add: parse_line_def findings_state_def initial_state_def string_defs)
  have d: "parse_line findings_state (8226 # ascii '' Recommendation: resize'') =
     findings_state\<lparr>current_section := Some Recommendations\<rparr>"
    by (simp add: parse_line_def findings_state_def initial_state_def string_defs)
  have n: "findings_var (parse_lines initial_state (py_split 10 bulleted_narrative)) =
     [ascii ''Servers are oversized'']"
    by (simp add: bulleted_narrative_def parse_line_def initial_state_def string_defs)
  show ?thesis by (intro conjI g b f u d n)
qed

theorem section_token_wins_over_bullet_witness:
  "mentions ''finding'' (py_strip (ascii ''- Key finding: idle servers'')) \<and>
   is_bullet_line (py_strip (ascii ''- Key finding: idle servers'')) \<and>
   parse_line findings_state (ascii ''- Key finding: idle servers'') = findings_state"
proof -
  have m: "mentions ''finding'' (py_strip (ascii ''- Key finding: idle servers''))"
    by (simp add: string_defs)
  have b: "is_bullet_line (py_strip (ascii ''- Key finding: idle servers''))"
    by (simp add: string_defs)
  from section_token_wins_over_bullet
    [of "''finding''" "ascii ''- Key finding: idle servers''" findings_state] m
  have "findings_var (parse_line findings_state (ascii ''- Key finding: idle servers''))
          = findings_var findings_state"
    by simp
  moreover have "parse_line findings_state (ascii ''- Key finding: idle servers'') = findings_state"
    using m by (simp add: parse_line_def findings_state_def initial_state_def string_defs)
  ultimately show ?thesis using m b by simp
qed

end
